theory Spec2Isabelle
  imports Complex_Main
begin

section \<open>Scalars, vectors and errors\<close>

text \<open>
  The program computes with NumPy double-precision numbers.  In this development
  a Python float is read as a real number and every arithmetic operation as the
  exact operation on reals; rounding, overflow, infinities and NaN are outside
  the model.  The one exception is the Vicsek-like interaction, whose arithmetic
  is a parameter, so that what it returns in double precision can be stated.  So is a division by zero, which NumPy answers with
  \<open>inf\<close> or \<open>nan\<close> and a warning: the finite-difference step \<open>dt\<close> of a curve, by which
  the numerical derivatives divide, is taken to be nonzero.  A point or vector of
  \<open>R\<^sup>3\<close> (a NumPy array of shape (3,)) is a triple of reals, a one-dimensional array
  of any length a list of reals.
\<close>

type_synonym vec3 = "real \<times> real \<times> real"

datatype py_error = ValueError | IndexError | AttributeError | NotImplementedError

definition vadd :: "vec3 \<Rightarrow> vec3 \<Rightarrow> vec3" where
  "vadd a b = (case a of (a0, a1, a2) \<Rightarrow> case b of (b0, b1, b2) \<Rightarrow> (a0 + b0, a1 + b1, a2 + b2))"

definition vsub :: "vec3 \<Rightarrow> vec3 \<Rightarrow> vec3" where
  "vsub a b = (case a of (a0, a1, a2) \<Rightarrow> case b of (b0, b1, b2) \<Rightarrow> (a0 - b0, a1 - b1, a2 - b2))"

definition smul :: "real \<Rightarrow> vec3 \<Rightarrow> vec3" where
  "smul s a = (case a of (a0, a1, a2) \<Rightarrow> (s * a0, s * a1, s * a2))"

definition sdiv :: "vec3 \<Rightarrow> real \<Rightarrow> vec3" where
  "sdiv a s = (case a of (a0, a1, a2) \<Rightarrow> (a0 / s, a1 / s, a2 / s))"

text \<open>\<open>np.dot\<close>, \<open>np.cross\<close> and \<open>np.linalg.norm\<close> on vectors of length three.\<close>

definition dot :: "vec3 \<Rightarrow> vec3 \<Rightarrow> real" where
  "dot a b = (case a of (a0, a1, a2) \<Rightarrow> case b of (b0, b1, b2) \<Rightarrow> a0 * b0 + a1 * b1 + a2 * b2)"

definition cross :: "vec3 \<Rightarrow> vec3 \<Rightarrow> vec3" where
  "cross a b = (case a of (a0, a1, a2) \<Rightarrow> case b of (b0, b1, b2) \<Rightarrow>
     (a1 * b2 - a2 * b1, a2 * b0 - a0 * b2, a0 * b1 - a1 * b0))"

definition linalg_norm :: "vec3 \<Rightarrow> real" where
  "linalg_norm a = (case a of (a0, a1, a2) \<Rightarrow> sqrt (a0 ^ 2 + a1 ^ 2 + a2 ^ 2))"

section \<open>Parametric curves (geometry/curves.py)\<close>

text \<open>
  A \<open>ParametricCurve\<close> stores the point map \<open>gamma\<close>, the three optional analytic
  derivative maps (\<open>None\<close> when not supplied; the fields carry the names of the
  constructor's arguments) and the finite-difference step \<open>dt\<close>.
\<close>

record ParametricCurve =
  gamma :: "real \<Rightarrow> vec3"
  derivative_func :: "(real \<Rightarrow> vec3) option"
  second_derivative_func :: "(real \<Rightarrow> vec3) option"
  third_derivative_func :: "(real \<Rightarrow> vec3) option"
  dt :: real

text \<open>
  \<open>derivative(t, order)\<close>: the analytic map when there is one, otherwise the
  central difference of the next lower order.  The recursive calls of the source
  always pass a literal order, so each order is a function of its own and
  \<open>derivative\<close> dispatches on the order, raising \<open>ValueError\<close> on any other.
\<close>

definition derivative_order1 :: "ParametricCurve \<Rightarrow> real \<Rightarrow> vec3" where
  "derivative_order1 c t =
     (case derivative_func c of
        Some f \<Rightarrow> f t
      | None \<Rightarrow> sdiv (vsub (gamma c (t + dt c)) (gamma c (t - dt c))) (2 * dt c))"

definition derivative_order2 :: "ParametricCurve \<Rightarrow> real \<Rightarrow> vec3" where
  "derivative_order2 c t =
     (case second_derivative_func c of
        Some f \<Rightarrow> f t
      | None \<Rightarrow> sdiv (vsub (derivative_order1 c (t + dt c)) (derivative_order1 c (t - dt c)))
                 (2 * dt c))"

definition derivative_order3 :: "ParametricCurve \<Rightarrow> real \<Rightarrow> vec3" where
  "derivative_order3 c t =
     (case third_derivative_func c of
        Some f \<Rightarrow> f t
      | None \<Rightarrow> sdiv (vsub (derivative_order2 c (t + dt c)) (derivative_order2 c (t - dt c)))
                 (2 * dt c))"

definition derivative :: "ParametricCurve \<Rightarrow> real \<Rightarrow> int \<Rightarrow> py_error + vec3" where
  "derivative c t order =
     (if order = 1 then Inr (derivative_order1 c t)
      else if order = 2 then Inr (derivative_order2 c t)
      else if order = 3 then Inr (derivative_order3 c t)
      else Inl ValueError)"

definition speed :: "ParametricCurve \<Rightarrow> real \<Rightarrow> py_error + real" where
  "speed c t =
     (case derivative c t 1 of
        Inl e \<Rightarrow> Inl e
      | Inr gamma_prime \<Rightarrow> Inr (linalg_norm gamma_prime))"

definition tangent :: "ParametricCurve \<Rightarrow> real \<Rightarrow> py_error + vec3" where
  "tangent c t =
     (case derivative c t 1 of
        Inl e \<Rightarrow> Inl e
      | Inr gamma_prime \<Rightarrow>
          (let spd = linalg_norm gamma_prime
           in if spd < 1 / 10 ^ 10 then Inl ValueError
              else Inr (sdiv gamma_prime spd)))"

definition curvature :: "ParametricCurve \<Rightarrow> real \<Rightarrow> py_error + real" where
  "curvature c t =
     (case derivative c t 1 of
        Inl e \<Rightarrow> Inl e
      | Inr gamma_prime \<Rightarrow>
     (case derivative c t 2 of
        Inl e \<Rightarrow> Inl e
      | Inr gamma_double_prime \<Rightarrow>
          (let cross_product = cross gamma_prime gamma_double_prime;
               numerator = linalg_norm cross_product;
               denominator = linalg_norm gamma_prime ^ 3
           in if denominator < 1 / 10 ^ 10 then Inr 0
              else Inr (numerator / denominator))))"

definition torsion :: "ParametricCurve \<Rightarrow> real \<Rightarrow> py_error + real" where
  "torsion c t =
     (case derivative c t 1 of
        Inl e \<Rightarrow> Inl e
      | Inr gamma_prime \<Rightarrow>
     (case derivative c t 2 of
        Inl e \<Rightarrow> Inl e
      | Inr gamma_double_prime \<Rightarrow>
     (case derivative c t 3 of
        Inl e \<Rightarrow> Inl e
      | Inr gamma_triple_prime \<Rightarrow>
          (let cross_product = cross gamma_prime gamma_double_prime;
               numerator = dot cross_product gamma_triple_prime;
               denominator = linalg_norm cross_product ^ 2
           in if denominator < 1 / 10 ^ 10 then Inr 0
              else Inr (numerator / denominator)))))"

text \<open>
  \<open>normal(t)\<close>: the central difference of the tangent field, normalised; when that
  difference is shorter than \<open>1e-10\<close> the fallback picks \<open>e_x\<close> or \<open>e_y\<close> by the test
  \<open>abs(T[0]) < 0.9\<close> and orthogonalises it against the tangent.
\<close>

definition normal :: "ParametricCurve \<Rightarrow> real \<Rightarrow> py_error + vec3" where
  "normal c t =
     (case tangent c (t + dt c) of
        Inl e \<Rightarrow> Inl e
      | Inr T_plus \<Rightarrow>
     (case tangent c (t - dt c) of
        Inl e \<Rightarrow> Inl e
      | Inr T_minus \<Rightarrow>
          (let T_prime = sdiv (vsub T_plus T_minus) (2 * dt c);
               nrm = linalg_norm T_prime
           in if nrm < 1 / 10 ^ 10 then
                (case tangent c t of
                   Inl e \<Rightarrow> Inl e
                 | Inr T \<Rightarrow>
                     (let v = (if \<bar>fst T\<bar> < 9 / 10 then (1, 0, 0) else (0, 1, 0));
                          N = vsub v (smul (dot v T) T)
                      in Inr (sdiv N (linalg_norm N))))
              else Inr (sdiv T_prime nrm))))"

text \<open>
  The fallback axis as the specification words it: \<open>e_x\<close> unless the tangent's
  component along \<open>e_x\<close> exceeds 0.9 in magnitude, then \<open>e_y\<close>.  This definition follows
  the specification, not the code, and is only compared with \<open>normal\<close>.
\<close>

definition spec_fallback_axis :: "vec3 \<Rightarrow> vec3" where
  "spec_fallback_axis T = (if \<bar>fst T\<bar> \<le> 9 / 10 then (1, 0, 0) else (0, 1, 0))"

definition spec_fallback_normal :: "vec3 \<Rightarrow> vec3" where
  "spec_fallback_normal T =
     (let v = spec_fallback_axis T; N = vsub v (smul (dot v T) T)
      in sdiv N (linalg_norm N))"

subsection \<open>Arc length\<close>

text \<open>
  \<open>np.linspace(start, stop, num)\<close> (NumPy, with its default \<open>endpoint=True\<close>): a
  negative \<open>num\<close> raises \<open>ValueError\<close>; otherwise the \<open>num\<close> samples are
  \<open>start + i * step\<close> with \<open>step = (stop - start) / (num - 1)\<close> (\<open>start + i * (stop - start)\<close>
  when \<open>num - 1\<close> is not positive), and for \<open>num > 1\<close> the last sample is overwritten
  with \<open>stop\<close>.
\<close>

definition linspace :: "real \<Rightarrow> real \<Rightarrow> int \<Rightarrow> py_error + real list" where
  "linspace start stop num =
     (if num < 0 then Inl ValueError
      else
        (let n = nat num;
             dv = num - 1;
             delta = stop - start;
             y = (if dv > 0 then map (\<lambda>i. real i * (delta / real_of_int dv) + start) [0..<n]
                  else map (\<lambda>i. real i * delta + start) [0..<n])
         in Inr (if num > 1 then y[n - 1 := stop] else y)))"

text \<open>
  \<open>np.trapz(y, x)\<close>: with \<open>d = diff(x)\<close>, the sum of \<open>d * (y[1:] + y[:-1]) / 2\<close>.  The
  product broadcasts: the two factors have equal lengths, or one of them has
  length one and is repeated; any other pair of lengths raises \<open>ValueError\<close>.
\<close>

fun np_diff :: "real list \<Rightarrow> real list" where
  "np_diff (x0 # x1 # xs) = (x1 - x0) # np_diff (x1 # xs)"
| "np_diff xs = []"

fun pair_sums :: "real list \<Rightarrow> real list" where
  "pair_sums (y0 # y1 # ys) = (y1 + y0) # pair_sums (y1 # ys)"
| "pair_sums ys = []"

definition trapz :: "real list \<Rightarrow> real list \<Rightarrow> py_error + real" where
  "trapz y x =
     (let d = np_diff x;
          s = pair_sums y
      in if length d = length s then Inr (sum_list (map2 (\<lambda>di si. di * si / 2) d s))
         else if length d = 1 then Inr (sum_list (map (\<lambda>si. hd d * si / 2) s))
         else if length s = 1 then Inr (sum_list (map (\<lambda>di. di * hd s / 2) d))
         else Inl ValueError)"

text \<open>A list comprehension whose body may raise: the first error wins.\<close>

fun collect :: "('a \<Rightarrow> py_error + 'b) \<Rightarrow> 'a list \<Rightarrow> py_error + 'b list" where
  "collect f [] = Inr []"
| "collect f (x # xs) =
     (case f x of
        Inl e \<Rightarrow> Inl e
      | Inr v \<Rightarrow> (case collect f xs of Inl e \<Rightarrow> Inl e | Inr vs \<Rightarrow> Inr (v # vs)))"

definition arc_length :: "ParametricCurve \<Rightarrow> real \<Rightarrow> real \<Rightarrow> int \<Rightarrow> py_error + real" where
  "arc_length c t0 t1 n_points =
     (case linspace t0 t1 n_points of
        Inl e \<Rightarrow> Inl e
      | Inr t_values \<Rightarrow>
          (case collect (speed c) t_values of
             Inl e \<Rightarrow> Inl e
           | Inr speeds \<Rightarrow> trapz speeds t_values))"

subsection \<open>The helix\<close>

text \<open>\<open>helix(radius, pitch)\<close> supplies all three analytic derivatives; \<open>dt\<close> keeps its default.\<close>

definition helix :: "real \<Rightarrow> real \<Rightarrow> ParametricCurve" where
  "helix radius pitch =
     \<lparr> gamma = (\<lambda>t. (radius * cos t, radius * sin t, pitch * t / (2 * pi))),
       derivative_func = Some (\<lambda>t. (- radius * sin t, radius * cos t, pitch / (2 * pi))),
       second_derivative_func = Some (\<lambda>t. (- radius * cos t, - radius * sin t, 0)),
       third_derivative_func = Some (\<lambda>t. (radius * sin t, - radius * cos t, 0)),
       dt = 1 / 10 ^ 5 \<rparr>"

section \<open>Single-particle dynamics (dynamics/curve_dynamics.py)\<close>

text \<open>
  \<open>ConstantSpeedDynamics\<close> keeps the curve and the \<open>speed\<close> argument of its
  constructor (fields \<open>self.curve\<close> and \<open>self.speed\<close>).
\<close>

record ConstantSpeedDynamics =
  cs_curve :: ParametricCurve
  cs_speed :: real

definition ConstantSpeedDynamics_equations_of_motion ::
  "ConstantSpeedDynamics \<Rightarrow> real \<Rightarrow> real \<Rightarrow> real \<Rightarrow> py_error + (real \<times> real)" where
  "ConstantSpeedDynamics_equations_of_motion self t position velocity =
     (case derivative (cs_curve self) position 1 of
        Inl e \<Rightarrow> Inl e
      | Inr gamma_prime \<Rightarrow>
     (case derivative (cs_curve self) position 2 of
        Inl e \<Rightarrow> Inl e
      | Inr gamma_double_prime \<Rightarrow>
          (let norm_gamma_prime = linalg_norm gamma_prime;
               acceleration =
                 (if norm_gamma_prime < 1 / 10 ^ 10 then 0
                  else - (dot gamma_prime gamma_double_prime / norm_gamma_prime ^ 2) * velocity ^ 2)
           in Inr (velocity, acceleration))))"

subsection \<open>The ODE solver and \<open>CurveDynamics.integrate\<close>\<close>

text \<open>
  \<open>scipy.integrate.solve_ivp\<close> is a library outside the repository, so it is a
  parameter of the model.  It receives the right-hand side, the time span, the
  initial state, the method name and the output grid, and returns a result
  object of which the code reads \<open>t\<close> and \<open>y\<close>; the object also carries the
  solver's \<open>status\<close> (\<open>-1\<close> when a step failed) and \<open>success\<close> flag.  With an output
  grid, \<open>y\<close> is a two-dimensional array with one row per state component and one
  column per output time, or the empty Python list when no output time was
  reached.
\<close>

datatype ode_y = Array2D "real list list" | EmptyList

record OdeResult =
  sol_t :: "real list"
  sol_y :: ode_y
  sol_status :: int
  sol_success :: bool

type_synonym rhs = "real \<Rightarrow> real list \<Rightarrow> py_error + real list"

type_synonym ode_solver =
  "rhs \<Rightarrow> real \<times> real \<Rightarrow> real list \<Rightarrow> string \<Rightarrow> real list \<Rightarrow> py_error + OdeResult"

text \<open>Indexing a Python sequence with a non-negative index: out of range raises.\<close>

definition getitem :: "'a list \<Rightarrow> nat \<Rightarrow> py_error + 'a" where
  "getitem xs i = (if i < length xs then Inr (xs ! i) else Inl IndexError)"

text \<open>\<open>solution.y[i]\<close>: row \<open>i\<close> of the array; the empty list has no item.\<close>

definition y_getitem :: "ode_y \<Rightarrow> nat \<Rightarrow> py_error + real list" where
  "y_getitem y i = (case y of Array2D rows \<Rightarrow> getitem rows i | EmptyList \<Rightarrow> Inl IndexError)"

text \<open>
  \<open>CurveDynamics.equations_of_motion\<close> of the base class raises; the subclasses
  override it.  \<open>FreeParticleDynamics.equations_of_motion\<close>: no acceleration.
\<close>

definition CurveDynamics_equations_of_motion ::
  "real \<Rightarrow> real \<Rightarrow> real \<Rightarrow> py_error + (real \<times> real)" where
  "CurveDynamics_equations_of_motion t position velocity = Inl NotImplementedError"

definition FreeParticleDynamics_equations_of_motion ::
  "real \<Rightarrow> real \<Rightarrow> real \<Rightarrow> py_error + (real \<times> real)" where
  "FreeParticleDynamics_equations_of_motion t position velocity = Inr (velocity, 0)"

text \<open>
  \<open>CurveDynamics.integrate\<close>, for the dynamics law \<open>eom\<close> of the subclass.  The right-hand
  side unpacks a state of exactly two entries (anything else raises \<open>ValueError\<close>).
\<close>

definition CurveDynamics_system ::
  "(real \<Rightarrow> real \<Rightarrow> real \<Rightarrow> py_error + (real \<times> real)) \<Rightarrow> rhs" where
  "CurveDynamics_system eom time state =
     (case state of
        [pos, vel] \<Rightarrow>
          (case eom time pos vel of
             Inl e \<Rightarrow> Inl e
           | Inr r \<Rightarrow> Inr [vel, snd r])
      | _ \<Rightarrow> Inl ValueError)"

definition CurveDynamics_integrate ::
  "ode_solver \<Rightarrow> (real \<Rightarrow> real \<Rightarrow> real \<Rightarrow> py_error + (real \<times> real)) \<Rightarrow>
   real \<Rightarrow> real \<Rightarrow> real \<times> real \<Rightarrow> int \<Rightarrow> string \<Rightarrow>
   py_error + (real list \<times> real list \<times> real list)" where
  "CurveDynamics_integrate solve_ivp eom initial_position initial_velocity t_span n_points method =
     (let y0 = [initial_position, initial_velocity]
      in case linspace (fst t_span) (snd t_span) n_points of
           Inl e \<Rightarrow> Inl e
         | Inr t_eval \<Rightarrow>
        (case solve_ivp (CurveDynamics_system eom) t_span y0 method t_eval of
           Inl e \<Rightarrow> Inl e
         | Inr solution \<Rightarrow>
        (case y_getitem (sol_y solution) 0 of
           Inl e \<Rightarrow> Inl e
         | Inr positions \<Rightarrow>
        (case y_getitem (sol_y solution) 1 of
           Inl e \<Rightarrow> Inl e
         | Inr velocities \<Rightarrow> Inr (sol_t solution, positions, velocities)))))"

section \<open>Interaction functions\<close>

text \<open>
  An in-place \<open>a += b\<close> or a slice assignment on an array of length \<open>n\<close> accepts a
  right-hand side of length \<open>n\<close>, or of length one (NumPy broadcasts it), and raises
  \<open>ValueError\<close> on any other length.
\<close>

definition broadcast :: "nat \<Rightarrow> real list \<Rightarrow> py_error + real list" where
  "broadcast n xs =
     (if length xs = n then Inr xs
      else if length xs = 1 then Inr (replicate n (hd xs))
      else Inl ValueError)"

text \<open>
  \<open>kuramoto_interaction(coupling, natural_frequencies)\<close> returns a closure over its two
  arguments; the model is the closure's body with both as leading parameters.
  The double loop reads \<open>positions[j]\<close> and \<open>positions[i]\<close> for \<open>i, j < n = len(positions)\<close>,
  always in range.
\<close>

definition kuramoto_inner :: "real \<Rightarrow> real list \<Rightarrow> nat \<Rightarrow> real list \<Rightarrow> real list" where
  "kuramoto_inner coupling positions i forces =
     foldl (\<lambda>fs j. if i \<noteq> j
                    then fs[i := fs ! i +
                           (coupling / real (length positions)) * sin (positions ! j - positions ! i)]
                    else fs)
           forces [0..<length positions]"

definition kuramoto_interaction ::
  "real \<Rightarrow> real list option \<Rightarrow> real list \<Rightarrow> real list \<Rightarrow> py_error + real list" where
  "kuramoto_interaction coupling natural_frequencies positions velocities =
     (let n = length positions;
          forces = replicate n 0
      in case (case natural_frequencies of
                 None \<Rightarrow> Inr forces
               | Some w \<Rightarrow>
                   (case broadcast n w of
                      Inl e \<Rightarrow> Inl e
                    | Inr wb \<Rightarrow> Inr (map2 (+) forces wb))) of
           Inl e \<Rightarrow> Inl e
         | Inr forces1 \<Rightarrow>
             Inr (foldl (\<lambda>fs i. kuramoto_inner coupling positions i fs) forces1 [0..<n]))"










section \<open>The multi-particle system\<close>

record MultiParticleSystem =
  curve :: ParametricCurve
  n_particles :: nat
  interaction_function :: "(real list \<Rightarrow> real list \<Rightarrow> py_error + real list) option"

text \<open>
  The loop over the particles that adds the external force; \<open>positions[i]\<close> and
  \<open>velocities[i]\<close> raise \<open>IndexError\<close> out of range.
\<close>

fun external_loop ::
  "(real \<Rightarrow> real \<Rightarrow> real \<Rightarrow> real) \<Rightarrow> real \<Rightarrow> real list \<Rightarrow> real list \<Rightarrow> nat list \<Rightarrow> real list \<Rightarrow>
   py_error + real list" where
  "external_loop external_force time positions velocities [] forces = Inr forces"
| "external_loop external_force time positions velocities (i # rest) forces =
     (if i < length positions \<and> i < length velocities then
        external_loop external_force time positions velocities rest
          (forces[i := forces ! i + external_force time (positions ! i) (velocities ! i)])
      else Inl IndexError)"

text \<open>
  \<open>MultiParticleSystem.equations_of_motion(time, state, damping, external_force)\<close>.
  \<open>state[:n]\<close> and \<open>state[n:]\<close> are \<open>take\<close> and \<open>drop\<close>; the two slice assignments and the
  two in-place updates broadcast their right-hand sides.
\<close>

definition equations_of_motion ::
  "MultiParticleSystem \<Rightarrow> real \<Rightarrow> real list \<Rightarrow> real \<Rightarrow> (real \<Rightarrow> real \<Rightarrow> real \<Rightarrow> real) option \<Rightarrow>
   py_error + real list" where
  "equations_of_motion self time state damping external_force =
     (let n = n_particles self;
          positions = take n state;
          velocities = drop n state
      in case broadcast n velocities of
           Inl e \<Rightarrow> Inl e
         | Inr d_positions \<Rightarrow>
        (case (case interaction_function self of
                 None \<Rightarrow> Inr (replicate n 0)
               | Some f \<Rightarrow>
                   (case f positions velocities of
                      Inl e \<Rightarrow> Inl e
                    | Inr interaction_forces \<Rightarrow>
                        (case broadcast n interaction_forces of
                           Inl e \<Rightarrow> Inl e
                         | Inr fb \<Rightarrow> Inr (map2 (+) (replicate n 0) fb)))) of
           Inl e \<Rightarrow> Inl e
         | Inr forces1 \<Rightarrow>
        (case (case external_force of
                 None \<Rightarrow> Inr forces1
               | Some ef \<Rightarrow> external_loop ef time positions velocities [0..<n] forces1) of
           Inl e \<Rightarrow> Inl e
         | Inr forces2 \<Rightarrow>
        (case broadcast n (map (\<lambda>v. damping * v) velocities) of
           Inl e \<Rightarrow> Inl e
         | Inr dv \<Rightarrow> Inr (d_positions @ map2 (-) forces2 dv)))))"

text \<open>
  \<open>MultiParticleSystem.integrate\<close>: the rows \<open>y[:n]\<close> and \<open>y[n:]\<close> of the solver's result,
  transposed to one row per output time.  A Python list has no attribute \<open>T\<close>, so
  the empty list raises \<open>AttributeError\<close>.
\<close>

definition MultiParticleSystem_integrate ::
  "ode_solver \<Rightarrow> MultiParticleSystem \<Rightarrow> real list \<Rightarrow> real list \<Rightarrow> real \<times> real \<Rightarrow> int \<Rightarrow> string \<Rightarrow>
   real \<Rightarrow> (real \<Rightarrow> real \<Rightarrow> real \<Rightarrow> real) option \<Rightarrow>
   py_error + (real list \<times> real list list \<times> real list list)" where
  "MultiParticleSystem_integrate solve_ivp self initial_positions initial_velocities t_span
     n_points method damping external_force =
     (let y0 = initial_positions @ initial_velocities
      in case linspace (fst t_span) (snd t_span) n_points of
           Inl e \<Rightarrow> Inl e
         | Inr t_eval \<Rightarrow>
        (case solve_ivp (\<lambda>t y. equations_of_motion self t y damping external_force)
                t_span y0 method t_eval of
           Inl e \<Rightarrow> Inl e
         | Inr solution \<Rightarrow>
             (let n = n_particles self
              in case sol_y solution of
                   EmptyList \<Rightarrow> Inl AttributeError
                 | Array2D rows \<Rightarrow>
                     Inr (sol_t solution, transpose (take n rows), transpose (drop n rows)))))"

text \<open>
  \<open>MultiParticleSystem.spatial_trajectories\<close>: it integrates, then reads
  \<open>positions[i, j]\<close> for every \<open>i\<close> in \<open>range(n_points)\<close> and every particle \<open>j\<close>, and maps it
  through the curve; an index outside the array raises \<open>IndexError\<close>.
\<close>

definition spatial_trajectories ::
  "ode_solver \<Rightarrow> MultiParticleSystem \<Rightarrow> real list \<Rightarrow> real list \<Rightarrow> real \<times> real \<Rightarrow> int \<Rightarrow> string \<Rightarrow>
   real \<Rightarrow> (real \<Rightarrow> real \<Rightarrow> real \<Rightarrow> real) option \<Rightarrow>
   py_error + (real list \<times> vec3 list list)" where
  "spatial_trajectories solve_ivp self initial_positions initial_velocities t_span n_points
     method damping external_force =
     (case MultiParticleSystem_integrate solve_ivp self initial_positions initial_velocities
             t_span n_points method damping external_force of
        Inl e \<Rightarrow> Inl e
      | Inr r \<Rightarrow>
          (case collect
                  (\<lambda>i. collect
                         (\<lambda>j. case getitem (fst (snd r)) i of
                                Inl e \<Rightarrow> Inl e
                              | Inr row \<Rightarrow>
                                  (case getitem row j of
                                     Inl e \<Rightarrow> Inl e
                                   | Inr p \<Rightarrow> Inr (gamma (curve self) p)))
                         [0..<n_particles self])
                  [0..<nat n_points] of
             Inl e \<Rightarrow> Inl e
           | Inr trajectories \<Rightarrow> Inr (fst r, trajectories)))"

text \<open>
  The two force terms of the velocity block, for stating what \<open>equations_of_motion\<close>
  returns: the interaction forces, all zero when the system has no interaction
  function, and the external force on one particle, zero when none is passed.
\<close>

definition interaction_forces_of ::
  "MultiParticleSystem \<Rightarrow> real list \<Rightarrow> real list \<Rightarrow> py_error + real list" where
  "interaction_forces_of self positions velocities =
     (case interaction_function self of
        None \<Rightarrow> Inr (replicate (n_particles self) 0)
      | Some f \<Rightarrow> f positions velocities)"

definition external_force_of ::
  "(real \<Rightarrow> real \<Rightarrow> real \<Rightarrow> real) option \<Rightarrow> real \<Rightarrow> real \<Rightarrow> real \<Rightarrow> real" where
  "external_force_of external_force time position velocity =
     (case external_force of None \<Rightarrow> 0 | Some ef \<Rightarrow> ef time position velocity)"

text \<open>The call \<open>equations_of_motion(time, state)\<close>, with the defaults \<open>damping=0.0\<close> and
  \<open>external_force=None\<close> of the signature.\<close>

definition equations_of_motion_defaults ::
  "MultiParticleSystem \<Rightarrow> real \<Rightarrow> real list \<Rightarrow> py_error + real list" where
  "equations_of_motion_defaults self time state = equations_of_motion self time state 0 None"

section \<open>The order parameter and a Runge--Kutta solver\<close>

text \<open>
  The Kuramoto order parameter as the multi-particle example computes it from one
  row of positions: \<open>abs(np.mean(np.exp(1j * phases)))\<close>.
\<close>

definition order_parameter :: "real list \<Rightarrow> real" where
  "order_parameter phases =
     cmod (sum_list (map (\<lambda>p. exp (\<i> * complex_of_real p)) phases) / of_nat (length phases))"

text \<open>
  A state vector of \<open>n\<close> particles is synchronized when all its positions are equal
  and all its velocities are equal.
\<close>

definition synchronized :: "nat \<Rightarrow> real list \<Rightarrow> bool" where
  "synchronized n y = (y = replicate n (hd y) @ replicate n (y ! n))"

text \<open>
  Modelled from the spec: the solver behind \<open>solve_ivp\<close>, which is SciPy's and not part of
  the repository.  The specification describes it as an adaptive-step explicit
  Runge--Kutta solver whose dense (interpolated) output is resampled on the
  requested grid, and which fails when its step control cannot meet the tolerances
  within an internal step budget.  The model is a family of such solvers: any
  explicit Runge--Kutta tableau (one node and one row of coefficients per stage),
  any weights of the step, any interpolation weights as a function of the position
  inside the step, any step control (which accepts a step and proposes the next
  step size, rejects it and proposes a smaller one, or gives up), any budget of
  attempted steps and any first step size.  SciPy's \<open>RK45\<close> is one member.
\<close>

definition axpy :: "real \<Rightarrow> real list \<Rightarrow> real list \<Rightarrow> real list" where
  "axpy a x y = map2 (\<lambda>xi yi. yi + a * xi) x y"

fun lincomb :: "real list \<Rightarrow> real list list \<Rightarrow> real list \<Rightarrow> real list" where
  "lincomb (w # ws) (k # ks) y = lincomb ws ks (axpy w k y)"
| "lincomb ws ks y = y"

record rk_method =
  rk_tableau :: "(real \<times> real list) list"
  rk_weights :: "real list"
  rk_dense :: "real \<Rightarrow> real list"

datatype step_decision = Accept real | Retry real | GiveUp

type_synonym step_control = "real \<Rightarrow> real list \<Rightarrow> real \<Rightarrow> real list list \<Rightarrow> step_decision"

text \<open>The stage derivatives of one step from \<open>(t, y)\<close> with step size \<open>h\<close>.\<close>

fun rk_stages ::
  "rhs \<Rightarrow> real \<Rightarrow> real list \<Rightarrow> real \<Rightarrow> (real \<times> real list) list \<Rightarrow> real list list \<Rightarrow>
   py_error + real list list" where
  "rk_stages f t y h [] ks = Inr ks"
| "rk_stages f t y h (ca # tableau) ks =
     (case f (t + fst ca * h) (lincomb (map (\<lambda>a. h * a) (snd ca)) ks y) of
        Inl e \<Rightarrow> Inl e
      | Inr k \<Rightarrow> rk_stages f t y h tableau (ks @ [k]))"

text \<open>
  The stepping loop.  It returns the samples produced so far and the status: 0 when
  the end of the span is reached, \<open>-1\<close> when the control gives up or the budget is
  spent.  An accepted step emits the interpolated state at every grid time it has
  reached.
\<close>

fun rk_loop ::
  "nat \<Rightarrow> rk_method \<Rightarrow> step_control \<Rightarrow> rhs \<Rightarrow> real \<Rightarrow> real \<Rightarrow> real list \<Rightarrow> real \<Rightarrow> real list \<Rightarrow>
   (real \<times> real list) list \<Rightarrow> py_error + ((real \<times> real list) list \<times> int)" where
  "rk_loop 0 m control f t_end t y h t_eval out = Inr (out, - 1)"
| "rk_loop (Suc budget) m control f t_end t y h t_eval out =
     (if t_end \<le> t then Inr (out, 0)
      else
        (let h1 = min h (t_end - t)
         in case rk_stages f t y h1 (rk_tableau m) [] of
              Inl e \<Rightarrow> Inl e
            | Inr ks \<Rightarrow>
                (case control t y h1 ks of
                   GiveUp \<Rightarrow> Inr (out, - 1)
                 | Retry h2 \<Rightarrow> rk_loop budget m control f t_end t y h2 t_eval out
                 | Accept h2 \<Rightarrow>
                     (let t_new = t + h1;
                          y_new = lincomb (map (\<lambda>b. h1 * b) (rk_weights m)) ks y;
                          reached = takeWhile (\<lambda>s. s \<le> t_new) t_eval;
                          later = dropWhile (\<lambda>s. s \<le> t_new) t_eval;
                          samples = map (\<lambda>s. (s, lincomb (map (\<lambda>w. h1 * w)
                                                    (rk_dense m ((s - t) / h1))) ks y)) reached
                      in rk_loop budget m control f t_end t_new y_new h2 later (out @ samples)))))"

text \<open>
  The result object: \<open>t\<close> holds the sample times and \<open>y\<close> one row per state component,
  or the empty list when there is no sample; \<open>success\<close> is \<open>status >= 0\<close>.
\<close>

definition rk_solve :: "rk_method \<Rightarrow> step_control \<Rightarrow> nat \<Rightarrow> real \<Rightarrow> ode_solver" where
  "rk_solve m control budget h0 f t_span y0 method t_eval =
     (case rk_loop budget m control f (snd t_span) (fst t_span) y0 h0 t_eval [] of
        Inl e \<Rightarrow> Inl e
      | Inr r \<Rightarrow>
          Inr \<lparr> sol_t = map fst (fst r),
                sol_y = (if fst r = [] then EmptyList
                         else Array2D (map (\<lambda>i. map (\<lambda>s. snd s ! i) (fst r)) [0..<length y0])),
                sol_status = snd r,
                sol_success = (0 \<le> snd r) \<rparr>)"

section \<open>Concrete inputs\<close>

text \<open>
  A curve with a stationary point: \<open>\<gamma>(t) = (t\<^sup>3, 0, 0)\<close> with its analytic first
  derivative, whose speed at \<open>t = 0\<close> is exactly 0.
\<close>

definition stationary_curve :: ParametricCurve where
  "stationary_curve =
     \<lparr> gamma = (\<lambda>t. (t ^ 3, 0, 0)),
       derivative_func = Some (\<lambda>t. (3 * t ^ 2, 0, 0)),
       second_derivative_func = None,
       third_derivative_func = None,
       dt = 1 / 10 ^ 5 \<rparr>"

text \<open>A system of two particles without interaction, on the unit helix.\<close>

definition two_free_particles :: MultiParticleSystem where
  "two_free_particles = \<lparr> curve = helix 1 1, n_particles = 2, interaction_function = None \<rparr>"

text \<open>
  A straight line whose unit tangent has \<open>x\<close>-component exactly \<open>9/10\<close>: the analytic
  derivative is the constant \<open>(9, \<surd>19, 0)\<close>, of norm 10.
\<close>

definition slanted_line :: ParametricCurve where
  "slanted_line =
     \<lparr> gamma = (\<lambda>t. (9 * t, sqrt 19 * t, 0)),
       derivative_func = Some (\<lambda>t. (9, sqrt 19, 0)),
       second_derivative_func = None,
       third_derivative_func = None,
       dt = 1 / 10 ^ 5 \<rparr>"

text \<open>The line along the \<open>z\<close>-axis, with its analytic derivative.\<close>

definition vertical_line :: ParametricCurve where
  "vertical_line =
     \<lparr> gamma = (\<lambda>t. (0, 0, t)),
       derivative_func = Some (\<lambda>t. (0, 0, 1)),
       second_derivative_func = None,
       third_derivative_func = None,
       dt = 1 / 10 ^ 5 \<rparr>"

text \<open>
  A run of the solver that fails: it reports \<open>status = -1\<close> and \<open>success = False\<close> after
  the first two output times, at both of which the state still has its initial
  value.
\<close>

definition stalled_solver :: ode_solver where
  "stalled_solver f t_span y0 method t_eval =
     Inr \<lparr> sol_t = take 2 t_eval, sol_y = Array2D (map (\<lambda>v. [v, v]) y0),
           sol_status = - 1, sol_success = False \<rparr>"

text \<open>
  Two Kuramoto oscillators with coupling 1 and the same natural frequency \<open>1/2\<close>,
  integrated by Euler's method with a control that accepts every step.
\<close>

definition kuramoto_pair :: MultiParticleSystem where
  "kuramoto_pair =
     \<lparr> curve = helix 1 1, n_particles = 2,
       interaction_function = Some (kuramoto_interaction 1 (Some [1 / 2, 1 / 2])) \<rparr>"

definition euler :: rk_method where
  "euler = \<lparr> rk_tableau = [(0, [])], rk_weights = [1], rk_dense = (\<lambda>theta. [theta]) \<rparr>"

definition always_accept :: step_control where
  "always_accept t y h ks = Accept h"

section \<open>Basic facts about vectors\<close>

lemma linalg_norm_nonneg: "0 \<le> linalg_norm a"
  by (cases a) (simp add: linalg_norm_def)

lemma linalg_norm_sdiv: "linalg_norm (sdiv a s) = linalg_norm a / \<bar>s\<bar>"
proof (cases a)
  case (fields a0 a1 a2)
  have "(a0 / s) ^ 2 + (a1 / s) ^ 2 + (a2 / s) ^ 2 = (a0 ^ 2 + a1 ^ 2 + a2 ^ 2) / s ^ 2"
    by (simp add: power_divide add_divide_distrib)
  then show ?thesis
    using fields by (simp add: linalg_norm_def sdiv_def real_sqrt_divide)
qed

lemma linalg_norm_unit:
  assumes "0 < linalg_norm a"
  shows "linalg_norm (sdiv a (linalg_norm a)) = 1"
  using assms by (simp add: linalg_norm_sdiv)

section \<open>Derivatives of supported order never raise\<close>

lemma derivative_1: "derivative c t 1 = Inr (derivative_order1 c t)"
  by (simp add: derivative_def)

lemma derivative_2: "derivative c t 2 = Inr (derivative_order2 c t)"
  by (simp add: derivative_def)

lemma derivative_3: "derivative c t 3 = Inr (derivative_order3 c t)"
  by (simp add: derivative_def)

lemma tangent_eq:
  "tangent c t =
     (if linalg_norm (derivative_order1 c t) < 1 / 10 ^ 10 then Inl ValueError
      else Inr (sdiv (derivative_order1 c t) (linalg_norm (derivative_order1 c t))))"
  by (simp add: tangent_def derivative_1 Let_def)

section \<open>The tangent\<close>

text \<open>
  Claim C2.  \<open>tangent(t)\<close> raises (the \<open>ValueError\<close> that the specification calls
  DegenerateGeometry) exactly when the norm of the first derivative at \<open>t\<close> is below
  \<open>1e-10\<close>; otherwise it returns the first derivative divided by its norm, which is a
  unit vector.  In particular it raises wherever the speed is exactly 0.
\<close>

theorem tangent_raises_iff_slow:
  "((\<exists>e. tangent c t = Inl e) \<longleftrightarrow> linalg_norm (derivative_order1 c t) < 1 / 10 ^ 10) \<and>
   tangent c t =
     (if linalg_norm (derivative_order1 c t) < 1 / 10 ^ 10 then Inl ValueError
      else Inr (sdiv (derivative_order1 c t) (linalg_norm (derivative_order1 c t)))) \<and>
   (linalg_norm (derivative_order1 c t) < 1 / 10 ^ 10 \<or>
    linalg_norm (sdiv (derivative_order1 c t) (linalg_norm (derivative_order1 c t))) = 1) \<and>
   (speed c t = Inr 0 \<longrightarrow> tangent c t = Inl ValueError)"
proof -
  let ?d = "derivative_order1 c t"
  have unit: "linalg_norm (sdiv ?d (linalg_norm ?d)) = 1" if "\<not> linalg_norm ?d < 1 / 10 ^ 10"
  proof -
    from that have "0 < linalg_norm ?d"
      by (smt (verit) zero_less_divide_1_iff zero_less_power)
    then show ?thesis by (rule linalg_norm_unit)
  qed
  have stat: "tangent c t = Inl ValueError" if "speed c t = Inr 0"
  proof -
    from that have "linalg_norm ?d = 0"
      by (simp add: speed_def derivative_1)
    then show ?thesis by (simp add: tangent_eq)
  qed
  show ?thesis
    using unit stat by (auto simp: tangent_eq)
qed

text \<open>The stationary point of \<open>stationary_curve\<close>: speed 0 at \<open>t = 0\<close>, and the tangent raises.\<close>

theorem tangent_raises_iff_slow_witness:
  "speed stationary_curve 0 = Inr 0 \<and> tangent stationary_curve 0 = Inl ValueError \<and>
   (\<exists>e. tangent stationary_curve 0 = Inl e)"
  using tangent_raises_iff_slow [of stationary_curve 0]
  by (simp add: stationary_curve_def speed_def derivative_1 derivative_order1_def linalg_norm_def)

section \<open>Curvature and torsion\<close>

text \<open>
  Claim C4.  \<open>curvature(t)\<close> and \<open>torsion(t)\<close> never raise.  Curvature is 0 when the cube
  of the first derivative's norm is below \<open>1e-10\<close> and the norm of the cross product of
  the first and second derivatives divided by that cube otherwise, and it is never
  negative; torsion is 0 when the squared norm of that cross product is below \<open>1e-10\<close>
  and the cross product's dot product with the third derivative divided by that
  squared norm otherwise.
\<close>

theorem curvature_torsion_total:
  "curvature c t =
     Inr (if linalg_norm (derivative_order1 c t) ^ 3 < 1 / 10 ^ 10 then 0
          else linalg_norm (cross (derivative_order1 c t) (derivative_order2 c t)) /
               linalg_norm (derivative_order1 c t) ^ 3) \<and>
   (\<exists>k. curvature c t = Inr k \<and> 0 \<le> k) \<and>
   torsion c t =
     Inr (if linalg_norm (cross (derivative_order1 c t) (derivative_order2 c t)) ^ 2 < 1 / 10 ^ 10
          then 0
          else dot (cross (derivative_order1 c t) (derivative_order2 c t)) (derivative_order3 c t) /
               linalg_norm (cross (derivative_order1 c t) (derivative_order2 c t)) ^ 2)"
  by (simp add: curvature_def torsion_def derivative_1 derivative_2 derivative_3 Let_def
      linalg_norm_nonneg)

section \<open>Constant-speed dynamics\<close>

text \<open>
  Claim C9.  The pair returned by \<open>ConstantSpeedDynamics.equations_of_motion\<close> does not
  depend on the \<open>speed\<close> given to the constructor: two instances over the same curve
  with different speeds return the same pair at every time, position and velocity.
\<close>

theorem speed_argument_unused:
  "ConstantSpeedDynamics_equations_of_motion \<lparr> cs_curve = c, cs_speed = s1 \<rparr> t position velocity =
   ConstantSpeedDynamics_equations_of_motion \<lparr> cs_curve = c, cs_speed = s2 \<rparr> t position velocity"
  by (simp add: ConstantSpeedDynamics_equations_of_motion_def derivative_1 derivative_2)

section \<open>Arc length over a degenerate interval\<close>

lemma linspace_degenerate:
  assumes "0 \<le> n"
  shows "linspace t0 t0 n = Inr (replicate (nat n) t0)"
proof -
  have "map (\<lambda>i. t0) [0..<nat n] = replicate (nat n) t0"
    by (simp add: map_replicate_const)
  moreover have "(replicate (nat n) t0)[nat n - 1 := t0] = replicate (nat n) t0"
    by (rule nth_equalityI) (auto simp: nth_list_update)
  ultimately show ?thesis
    using assms by (simp add: linspace_def Let_def)
qed

lemma collect_replicate:
  assumes "f x = Inr v"
  shows "collect f (replicate n x) = Inr (replicate n v)"
  using assms by (induction n) simp_all

lemma np_diff_replicate: "np_diff (replicate n x) = replicate (n - 1) 0"
proof (induction n)
  case 0
  then show ?case by simp
next
  case (Suc n)
  then show ?case by (cases n) simp_all
qed

lemma pair_sums_replicate: "pair_sums (replicate n y) = replicate (n - 1) (y + y)"
proof (induction n)
  case 0
  then show ?case by simp
next
  case (Suc n)
  then show ?case by (cases n) simp_all
qed

lemma trapz_constant_grid: "trapz (replicate n y) (replicate n x) = Inr 0"
proof -
  have "map2 (\<lambda>di si. di * si / 2) (replicate (n - 1) 0) (replicate (n - 1) (y + y)) =
        replicate (n - 1) (0::real)"
    by (simp add: zip_replicate)
  then show ?thesis
    by (simp add: trapz_def np_diff_replicate pair_sums_replicate Let_def sum_list_replicate)
qed

text \<open>
  Claim C6.  For every curve, every parameter value \<open>t0\<close> and every sample count \<open>n\<close>
  (a natural number, passed as the Python integer \<open>int n\<close>), \<open>arc_length(t0, t0, n)\<close>
  returns exactly 0.
\<close>

theorem arc_length_degenerate: "arc_length c t0 t0 (int n) = Inr 0"
proof -
  have sp: "speed c t0 = Inr (linalg_norm (derivative_order1 c t0))"
    by (simp add: speed_def derivative_1)
  show ?thesis
    by (simp add: arc_length_def linspace_degenerate
        collect_replicate [of "speed c" t0, OF sp] trapz_constant_grid)
qed

section \<open>The Vicsek-like alignment force\<close>





subsection \<open>Rounding to the nearest double\<close>














section \<open>The right-hand side of the multi-particle system\<close>

lemma broadcast_same: "length xs = n \<Longrightarrow> broadcast n xs = Inr xs"
  by (simp add: broadcast_def)

lemma map2_add_zeros: "length xs = n \<Longrightarrow> map2 (+) (replicate n (0::real)) xs = xs"
  by (rule nth_equalityI) simp_all

lemma external_loop_fold:
  assumes "\<forall>i \<in> set idx. i < length positions \<and> i < length velocities"
  shows "external_loop ef time positions velocities idx forces =
         Inr (fold (\<lambda>i fs. fs[i := fs ! i + ef time (positions ! i) (velocities ! i)]) idx forces)"
  using assms by (induction idx arbitrary: forces) simp_all

lemma fold_increment_upt:
  assumes "n \<le> length fs"
  shows "fold (\<lambda>i fs. fs[i := fs ! i + g i]) [0..<n] fs =
         map (\<lambda>i. fs ! i + g i) [0..<n] @ drop n fs"
  using assms
proof (induction n)
  case 0
  then show ?case by simp
next
  case (Suc n)
  then have n: "n < length fs" by simp
  then have d: "drop n fs = fs ! n # drop (Suc n) fs"
    by (simp add: Cons_nth_drop_Suc)
  have "(map (\<lambda>i. fs ! i + g i) [0..<n] @ drop n fs) ! n = fs ! n"
    using d by (simp add: nth_append)
  moreover have "(map (\<lambda>i. fs ! i + g i) [0..<n] @ drop n fs)[n := fs ! n + g n] =
      map (\<lambda>i. fs ! i + g i) [0..<n] @ (fs ! n + g n) # drop (Suc n) fs"
    using d by (simp add: list_update_append)
  ultimately show ?case using Suc by simp
qed

lemma equations_of_motion_value:
  assumes len: "length state = 2 * n_particles self"
      and inter: "interaction_forces_of self (take (n_particles self) state)
                    (drop (n_particles self) state) = Inr F"
      and lenF: "length F = n_particles self"
  shows "equations_of_motion self time state damping external_force =
         Inr (drop (n_particles self) state @
              map (\<lambda>i. F ! i
                        + external_force_of external_force time (state ! i)
                            (state ! (n_particles self + i))
                        - damping * state ! (n_particles self + i))
                  [0..<n_particles self])"
proof -
  let ?n = "n_particles self"
  let ?ps = "take ?n state" and ?vs = "drop ?n state"
  let ?E = "\<lambda>i. external_force_of external_force time (state ! i) (state ! (?n + i))"
  have lv: "length ?vs = ?n" and lp: "length ?ps = ?n"
    using len by simp_all
  have bv: "broadcast ?n ?vs = Inr ?vs"
    using lv by (rule broadcast_same)
  have bd: "broadcast ?n (map (\<lambda>v. damping * v) ?vs) = Inr (map (\<lambda>v. damping * v) ?vs)"
    using lv by (simp add: broadcast_same)
  have f1: "(case interaction_function self of
               None \<Rightarrow> Inr (replicate ?n 0)
             | Some f \<Rightarrow>
                 (case f ?ps ?vs of
                    Inl e \<Rightarrow> Inl e
                  | Inr interaction_forces \<Rightarrow>
                      (case broadcast ?n interaction_forces of
                         Inl e \<Rightarrow> Inl e
                       | Inr fb \<Rightarrow> Inr (map2 (+) (replicate ?n 0) fb)))) = Inr F"
    using inter lenF
    by (auto simp: interaction_forces_of_def broadcast_same map2_add_zeros split: option.splits)
  have f2: "(case external_force of
               None \<Rightarrow> Inr F
             | Some ef \<Rightarrow> external_loop ef time ?ps ?vs [0..<?n] F) =
            Inr (map (\<lambda>i. F ! i + ?E i) [0..<?n])"
  proof (cases external_force)
    case None
    have "map (\<lambda>i. F ! i + 0) [0..<?n] = F"
      using lenF by (intro nth_equalityI) simp_all
    with None show ?thesis by (simp add: external_force_of_def)
  next
    case (Some ef)
    have "external_loop ef time ?ps ?vs [0..<?n] F =
          Inr (fold (\<lambda>i fs. fs[i := fs ! i + ef time (?ps ! i) (?vs ! i)]) [0..<?n] F)"
      using lp lv by (intro external_loop_fold) simp
    also have "fold (\<lambda>i fs. fs[i := fs ! i + ef time (?ps ! i) (?vs ! i)]) [0..<?n] F =
          map (\<lambda>i. F ! i + ef time (?ps ! i) (?vs ! i)) [0..<?n]"
      using lenF by (simp add: fold_increment_upt)
    also have "\<dots> = map (\<lambda>i. F ! i + ef time (state ! i) (state ! (?n + i))) [0..<?n]"
      using len by (intro map_cong) simp_all
    finally show ?thesis using Some by (simp add: external_force_of_def)
  qed
  have sub: "map2 (-) (map (\<lambda>i. F ! i + ?E i) [0..<?n]) (map (\<lambda>v. damping * v) ?vs) =
             map (\<lambda>i. F ! i + ?E i - damping * state ! (?n + i)) [0..<?n]"
    using len by (intro nth_equalityI) simp_all
  show ?thesis
    by (simp add: equations_of_motion_def Let_def bv f1 f2 bd sub)
qed

text \<open>
  Claim C8.  For a state vector of length \<open>2N\<close> (and interaction forces of length \<open>N\<close>,
  all zero when no interaction function is set), \<open>equations_of_motion\<close> returns a
  vector of length \<open>2N\<close> whose first \<open>N\<close> entries are the velocity block of the state and
  whose entry \<open>N + i\<close> is interaction force \<open>i\<close> plus the external force at
  \<open>(time, position i, velocity i)\<close> (zero when none is passed) minus damping times
  velocity \<open>i\<close>; with the default arguments the damping is 0 and there is no
  external force, so the last \<open>N\<close> entries are the interaction forces.
\<close>

theorem equations_of_motion_blocks:
  assumes "length state = 2 * n_particles self"
      and "interaction_forces_of self (take (n_particles self) state)
             (drop (n_particles self) state) = Inr F"
      and "length F = n_particles self"
  shows "(\<exists>d. equations_of_motion self time state damping external_force = Inr d \<and>
              length d = 2 * n_particles self \<and>
              take (n_particles self) d = drop (n_particles self) state \<and>
              drop (n_particles self) d =
                map (\<lambda>i. F ! i
                          + external_force_of external_force time (state ! i)
                              (state ! (n_particles self + i))
                          - damping * state ! (n_particles self + i))
                    [0..<n_particles self]) \<and>
         equations_of_motion_defaults self time state = Inr (drop (n_particles self) state @ F)"
proof -
  have "map (\<lambda>i. F ! i + external_force_of None time (state ! i) (state ! (n_particles self + i))
                 - 0 * state ! (n_particles self + i)) [0..<n_particles self] = F"
    using assms(3) by (intro nth_equalityI) (simp_all add: external_force_of_def)
  then have "equations_of_motion_defaults self time state = Inr (drop (n_particles self) state @ F)"
    using equations_of_motion_value [OF assms, of time 0 None]
    by (simp add: equations_of_motion_defaults_def)
  then show ?thesis
    using assms(1) by (simp add: equations_of_motion_value [OF assms])
qed

text \<open>
  Two free particles at positions 1, 2 with velocities 3, 4, damping \<open>1/2\<close> and the
  external force \<open>time + position\<close> at time 10.
\<close>

theorem equations_of_motion_blocks_witness:
  "length [1, 2, 3, 4::real] = 2 * n_particles two_free_particles \<and>
   interaction_forces_of two_free_particles (take (n_particles two_free_particles) [1, 2, 3, 4])
     (drop (n_particles two_free_particles) [1, 2, 3, 4]) = Inr [0, 0] \<and>
   length [0, 0::real] = n_particles two_free_particles \<and>
   equations_of_motion two_free_particles 10 [1, 2, 3, 4] (1 / 2) (Some (\<lambda>t p v. t + p)) =
     Inr [3, 4, 19 / 2, 10] \<and>
   equations_of_motion_defaults two_free_particles 10 [1, 2, 3, 4] = Inr [3, 4, 0, 0]"
proof -
  have n: "n_particles two_free_particles = 2"
    by (simp add: two_free_particles_def)
  have i: "interaction_forces_of two_free_particles (take 2 [1, 2, 3, 4]) (drop 2 [1, 2, 3, 4]) =
           Inr [0, 0]"
    by (simp add: interaction_forces_of_def two_free_particles_def numeral_2_eq_2)
  have u: "[0..<2] = [0, 1]"
    by (simp add: upt_rec numeral_2_eq_2)
  have "(\<exists>d. equations_of_motion two_free_particles 10 [1, 2, 3, 4] (1 / 2)
              (Some (\<lambda>t p v. t + p)) = Inr d \<and>
            take 2 d = [3, 4] \<and> drop 2 d = [19 / 2, 10]) \<and>
        equations_of_motion_defaults two_free_particles 10 [1, 2, 3, 4] = Inr [3, 4, 0, 0]"
    using equations_of_motion_blocks [of "[1, 2, 3, 4]" two_free_particles "[0, 0]" 10 "1 / 2"
        "Some (\<lambda>t p v. t + p)"] i
    by (auto simp: n u external_force_of_def)
  then obtain d where d: "equations_of_motion two_free_particles 10 [1, 2, 3, 4] (1 / 2)
        (Some (\<lambda>t p v. t + p)) = Inr d" "take 2 d = [3, 4]" "drop 2 d = [19 / 2, 10]"
      and dflt: "equations_of_motion_defaults two_free_particles 10 [1, 2, 3, 4] = Inr [3, 4, 0, 0]"
    by blast
  have "d = take 2 d @ drop 2 d"
    by simp
  then have "d = [3, 4, 19 / 2, 10]"
    using d(2,3) by simp
  then show ?thesis
    using d(1) dflt i by (simp add: n)
qed

section \<open>The helix\<close>












section \<open>The fallback of the normal\<close>

lemma tangent_unit:
  assumes "tangent c t = Inr T"
  shows "linalg_norm T = 1"
proof -
  let ?d = "derivative_order1 c t"
  from assms have ge: "\<not> linalg_norm ?d < 1 / 10 ^ 10" and T: "T = sdiv ?d (linalg_norm ?d)"
    by (auto simp: tangent_eq split: if_splits)
  from ge have "0 < linalg_norm ?d"
    by (smt (verit) zero_less_divide_1_iff zero_less_power)
  then show ?thesis
    unfolding T by (rule linalg_norm_unit)
qed

lemma normal_fallback_eq:
  assumes "tangent c (t + dt c) = Inr Tp" and "tangent c (t - dt c) = Inr Tm"
      and "tangent c t = Inr T"
      and "linalg_norm (sdiv (vsub Tp Tm) (2 * dt c)) < 1 / 10 ^ 10"
  shows "normal c t =
           Inr (let v = (if \<bar>fst T\<bar> < 9 / 10 then (1, 0, 0) else (0, 1, 0));
                    N = vsub v (smul (dot v T) T)
                in sdiv N (linalg_norm N))"
  using assms by (simp add: normal_def Let_def)

lemma dot_sdiv: "dot (sdiv a s) b = dot a b / s"
  by (cases a, cases b) (simp add: dot_def sdiv_def add_divide_distrib)

lemma gram_schmidt_x:
  assumes "x ^ 2 + y ^ 2 + z ^ 2 = (1::real)"
  shows "dot (vsub (1, 0, 0) (smul (dot (1, 0, 0) (x, y, z)) (x, y, z))) (x, y, z) = 0"
    and "linalg_norm (vsub (1, 0, 0) (smul (dot (1, 0, 0) (x, y, z)) (x, y, z))) =
         sqrt (1 - x ^ 2)"
proof -
  have "x * (1 - x ^ 2 - y ^ 2 - z ^ 2) = 0"
    using assms by simp
  then show "dot (vsub (1, 0, 0) (smul (dot (1, 0, 0) (x, y, z)) (x, y, z))) (x, y, z) = 0"
    by (simp add: dot_def vsub_def smul_def algebra_simps power2_eq_square)
  have "(1 - x * x) ^ 2 + (x * y) ^ 2 + (x * z) ^ 2 = (1 - x ^ 2) ^ 2 + x ^ 2 * (y ^ 2 + z ^ 2)"
    by (simp add: algebra_simps power2_eq_square)
  also have "y ^ 2 + z ^ 2 = 1 - x ^ 2"
    using assms by simp
  also have "(1 - x ^ 2) ^ 2 + x ^ 2 * (1 - x ^ 2) = 1 - x ^ 2"
    by (simp add: algebra_simps power2_eq_square)
  finally show "linalg_norm (vsub (1, 0, 0) (smul (dot (1, 0, 0) (x, y, z)) (x, y, z))) =
      sqrt (1 - x ^ 2)"
    by (simp add: linalg_norm_def dot_def vsub_def smul_def)
qed

lemma gram_schmidt_y:
  assumes "x ^ 2 + y ^ 2 + z ^ 2 = (1::real)"
  shows "dot (vsub (0, 1, 0) (smul (dot (0, 1, 0) (x, y, z)) (x, y, z))) (x, y, z) = 0"
    and "linalg_norm (vsub (0, 1, 0) (smul (dot (0, 1, 0) (x, y, z)) (x, y, z))) =
         sqrt (1 - y ^ 2)"
proof -
  have "y * (1 - x ^ 2 - y ^ 2 - z ^ 2) = 0"
    using assms by simp
  then show "dot (vsub (0, 1, 0) (smul (dot (0, 1, 0) (x, y, z)) (x, y, z))) (x, y, z) = 0"
    by (simp add: dot_def vsub_def smul_def algebra_simps power2_eq_square)
  have "(y * x) ^ 2 + (1 - y * y) ^ 2 + (y * z) ^ 2 = (1 - y ^ 2) ^ 2 + y ^ 2 * (x ^ 2 + z ^ 2)"
    by (simp add: algebra_simps power2_eq_square)
  also have "x ^ 2 + z ^ 2 = 1 - y ^ 2"
    using assms by simp
  also have "(1 - y ^ 2) ^ 2 + y ^ 2 * (1 - y ^ 2) = 1 - y ^ 2"
    by (simp add: algebra_simps power2_eq_square)
  finally show "linalg_norm (vsub (0, 1, 0) (smul (dot (0, 1, 0) (x, y, z)) (x, y, z))) =
      sqrt (1 - y ^ 2)"
    by (simp add: linalg_norm_def dot_def vsub_def smul_def)
qed

lemma slanted_tangent: "tangent slanted_line t = Inr (9 / 10, sqrt 19 / 10, 0)"
proof -
  have "linalg_norm (9, sqrt 19, 0) = sqrt 100"
    by (simp add: linalg_norm_def)
  also have "sqrt 100 = sqrt (10 ^ 2)"
    by simp
  also have "\<dots> = 10"
    by (simp only: real_sqrt_abs)
  finally have n: "linalg_norm (9, sqrt 19, 0) = 10" .
  have d: "derivative_order1 slanted_line t = (9, sqrt 19, 0)"
    by (simp add: derivative_order1_def slanted_line_def)
  show ?thesis
    unfolding tangent_eq d n by (simp add: sdiv_def)
qed

lemma vertical_tangent: "tangent vertical_line t = Inr (0, 0, 1)"
  by (simp add: tangent_eq derivative_order1_def vertical_line_def linalg_norm_def sdiv_def)

text \<open>
  Claim C3, as stated, fails where the tangent's \<open>x\<close>-component is exactly \<open>0.9\<close>: on
  \<open>slanted_line\<close> the tangent is \<open>(9/10, \<surd>19/10, 0)\<close>, the test \<open>abs(T[0]) < 0.9\<close> is false and
  the code orthogonalises \<open>e_y\<close>, returning \<open>(-\<surd>19/10, 9/10, 0)\<close>; the rule of the
  specification takes \<open>e_x\<close> there and gives \<open>(\<surd>19/10, -9/10, 0)\<close>.
\<close>

theorem normal_axis_at_threshold:
  "tangent slanted_line 0 = Inr (9 / 10, sqrt 19 / 10, 0) \<and>
   normal slanted_line 0 = Inr (- (sqrt 19 / 10), 9 / 10, 0) \<and>
   spec_fallback_normal (9 / 10, sqrt 19 / 10, 0) = (sqrt 19 / 10, - (9 / 10), 0) \<and>
   normal slanted_line 0 \<noteq> Inr (spec_fallback_normal (9 / 10, sqrt 19 / 10, 0))"
proof -
  let ?T = "(9 / 10, sqrt 19 / 10, 0) :: vec3"
  have s19: "sqrt 19 * sqrt 19 = 19"
    by simp
  have wy: "vsub (0, 1, 0) (smul (dot (0, 1, 0) ?T) ?T) = (- (9 * sqrt 19 / 100), 81 / 100, 0)"
    using s19 by (simp add: vsub_def smul_def dot_def)
  have "(9 * sqrt 19 / 100) ^ 2 + (81 / 100) ^ 2 = ((9 / 10) ^ 2 :: real)"
    using s19 by (simp add: power2_eq_square)
  then have "linalg_norm (- (9 * sqrt 19 / 100), 81 / 100, 0) = sqrt ((9 / 10) ^ 2)"
    by (simp add: linalg_norm_def)
  also have "\<dots> = 9 / 10"
    by (simp only: real_sqrt_abs)
  finally have ny: "linalg_norm (- (9 * sqrt 19 / 100), 81 / 100, 0) = 9 / 10" .
  have zero: "linalg_norm (sdiv (vsub ?T ?T) (2 * dt slanted_line)) < 1 / 10 ^ 10"
    by (simp add: vsub_def sdiv_def linalg_norm_def)
  have nrm: "normal slanted_line 0 = Inr (- (sqrt 19 / 10), 9 / 10, 0)"
    using zero by (simp add: normal_def slanted_tangent Let_def wy ny sdiv_def)
  have wx: "vsub (1, 0, 0) (smul (dot (1, 0, 0) ?T) ?T) = (19 / 100, - (9 * sqrt 19 / 100), 0)"
    by (simp add: vsub_def smul_def dot_def)
  have "(19 / 100) ^ 2 + (9 * sqrt 19 / 100) ^ 2 = ((sqrt 19 / 10) ^ 2 :: real)"
    using s19 by (simp add: power2_eq_square)
  then have "linalg_norm (19 / 100, - (9 * sqrt 19 / 100), 0) = sqrt ((sqrt 19 / 10) ^ 2)"
    by (simp add: linalg_norm_def)
  also have "\<dots> = sqrt 19 / 10"
    by (simp only: real_sqrt_abs) simp
  finally have nx: "linalg_norm (19 / 100, - (9 * sqrt 19 / 100), 0) = sqrt 19 / 10" .
  have "19 / 100 / (sqrt 19 / 10) = sqrt 19 / 10"
    using s19 by (simp add: field_simps)
  then have sp: "spec_fallback_normal ?T = (sqrt 19 / 10, - (9 / 10), 0)"
    by (simp add: spec_fallback_normal_def spec_fallback_axis_def Let_def wx nx sdiv_def)
  show ?thesis
    using nrm sp by (simp add: slanted_tangent)
qed

text \<open>
  Claim C3, amended.  Where the tangent exists at \<open>t - dt\<close>, \<open>t\<close> and \<open>t + dt\<close> and the central
  difference of the tangent field at \<open>t\<close> has norm below \<open>1e-10\<close>, \<open>normal(t)\<close> returns the
  vector obtained by taking \<open>e_x\<close> when the magnitude of the tangent's \<open>x\<close>-component is
  strictly below \<open>0.9\<close> and \<open>e_y\<close> otherwise (so \<open>e_y\<close> at exactly \<open>0.9\<close>), subtracting its
  projection on the tangent and normalising; the result is a unit vector orthogonal
  to the tangent.
\<close>

theorem normal_fallback:
  assumes "tangent c (t + dt c) = Inr Tp" and "tangent c (t - dt c) = Inr Tm"
      and "tangent c t = Inr T"
      and "linalg_norm (sdiv (vsub Tp Tm) (2 * dt c)) < 1 / 10 ^ 10"
  shows "\<exists>N. normal c t = Inr N \<and>
           N = (let v = (if \<bar>fst T\<bar> < 9 / 10 then (1, 0, 0) else (0, 1, 0));
                    w = vsub v (smul (dot v T) T)
                in sdiv w (linalg_norm w)) \<and>
           linalg_norm N = 1 \<and> dot N T = 0"
proof -
  obtain x y z where T: "T = (x, y, z)"
    by (cases T) auto
  have "linalg_norm T = 1"
    using assms(3) by (rule tangent_unit)
  then have "sqrt (x ^ 2 + y ^ 2 + z ^ 2) = 1"
    by (simp add: T linalg_norm_def)
  then have one: "x ^ 2 + y ^ 2 + z ^ 2 = 1"
    by simp
  let ?v = "if \<bar>fst T\<bar> < 9 / 10 then (1, 0, 0) else (0, 1, 0) :: vec3"
  let ?w = "vsub ?v (smul (dot ?v T) T)"
  have eq: "normal c t = Inr (sdiv ?w (linalg_norm ?w))"
    using normal_fallback_eq [OF assms] by (simp add: Let_def)
  have orth: "dot ?w T = 0" and pos: "0 < linalg_norm ?w"
  proof -
    show "dot ?w T = 0"
      using gram_schmidt_x(1) [OF one] gram_schmidt_y(1) [OF one] by (simp add: T)
    show "0 < linalg_norm ?w"
    proof (cases "\<bar>x\<bar> < 9 / 10")
      case True
      then have "x ^ 2 < 1"
        by (simp add: abs_square_less_1)
      then show ?thesis
        using True gram_schmidt_x(2) [OF one] by (simp add: T)
    next
      case False
      then have "(9 / 10) ^ 2 \<le> \<bar>x\<bar> ^ 2"
        by (intro power_mono) simp_all
      then have "81 / 100 \<le> x ^ 2"
        by (simp add: power2_eq_square)
      moreover have "0 \<le> z ^ 2"
        by simp
      ultimately have "y ^ 2 < 1"
        using one by linarith
      then show ?thesis
        using False gram_schmidt_y(2) [OF one] by (simp add: T)
    qed
  qed
  have "linalg_norm (sdiv ?w (linalg_norm ?w)) = 1"
    using pos by (rule linalg_norm_unit)
  moreover have "dot (sdiv ?w (linalg_norm ?w)) T = 0"
    using orth by (simp add: dot_sdiv)
  ultimately show ?thesis
    using eq by (simp add: Let_def)
qed

text \<open>On the line along the \<open>z\<close>-axis the tangent is \<open>e_z\<close> and the fallback normal is \<open>e_x\<close>.\<close>

theorem normal_fallback_witness:
  "tangent vertical_line (0 + dt vertical_line) = Inr (0, 0, 1) \<and>
   tangent vertical_line (0 - dt vertical_line) = Inr (0, 0, 1) \<and>
   tangent vertical_line 0 = Inr (0, 0, 1) \<and>
   linalg_norm (sdiv (vsub (0, 0, 1) (0, 0, 1)) (2 * dt vertical_line)) < 1 / 10 ^ 10 \<and>
   normal vertical_line 0 = Inr (1, 0, 0)"
proof -
  have z: "linalg_norm (sdiv (vsub (0, 0, 1) (0, 0, 1)) (2 * dt vertical_line)) < 1 / 10 ^ 10"
    by (simp add: vsub_def sdiv_def linalg_norm_def)
  show ?thesis
    using normal_fallback [OF vertical_tangent vertical_tangent vertical_tangent z, of 0] z
    by (simp add: vertical_tangent vsub_def smul_def dot_def sdiv_def linalg_norm_def)
qed

section \<open>Integration and the solver's status\<close>

lemma linspace_0_1_5: "linspace 0 1 5 = Inr [0, 1 / 4, 1 / 2, 3 / 4, 1]"
proof -
  have "[0..<5] = [0, 1, 2, 3, 4]"
    by (simp add: upt_rec)
  then show ?thesis
    by (simp add: linspace_def Let_def)
qed

lemma stalled_multi_integrate:
  "MultiParticleSystem_integrate stalled_solver two_free_particles [1, 2] [0, 0] (0, 1) 5
       ''RK45'' 0 None =
     Inr ([0, 1 / 4], [[1, 2], [1, 2]], [[0, 0], [0, 0]])"
  by (simp add: MultiParticleSystem_integrate_def stalled_solver_def linspace_0_1_5
      two_free_particles_def)

text \<open>
  Claim C1.  When the solver cannot meet its tolerances within its step budget,
  \<open>CurveDynamics.integrate\<close> and \<open>MultiParticleSystem.integrate\<close> fail with an error and
  never return a truncated \<open>(times, positions, velocities)\<close>.  The code does not do
  this: neither method reads the solver's \<open>status\<close> or \<open>success\<close>.  On a run that
  gives up (status \<open>-1\<close>) after two of the five requested output times, both return
  the two-sample arrays and raise nothing, although their docstrings promise
  \<open>n_points\<close> time points and arrays of shape \<open>(n_points, n_particles)\<close>; and
  \<open>spatial_trajectories\<close>, which reads \<open>n_points\<close> rows of that result, then raises
  \<open>IndexError\<close>.
\<close>

theorem integrate_returns_truncated:
  "stalled_solver (CurveDynamics_system FreeParticleDynamics_equations_of_motion) (0, 1) [1, 0]
       ''RK45'' [0, 1 / 4, 1 / 2, 3 / 4, 1] =
     Inr \<lparr> sol_t = [0, 1 / 4], sol_y = Array2D [[1, 1], [0, 0]], sol_status = - 1,
           sol_success = False \<rparr> \<and>
   CurveDynamics_integrate stalled_solver FreeParticleDynamics_equations_of_motion 1 0 (0, 1) 5
       ''RK45'' =
     Inr ([0, 1 / 4], [1, 1], [0, 0]) \<and>
   MultiParticleSystem_integrate stalled_solver two_free_particles [1, 2] [0, 0] (0, 1) 5
       ''RK45'' 0 None =
     Inr ([0, 1 / 4], [[1, 2], [1, 2]], [[0, 0], [0, 0]]) \<and>
   length [[1, 2], [1, 2 :: real]] < nat 5 \<and>
   spatial_trajectories stalled_solver two_free_particles [1, 2] [0, 0] (0, 1) 5 ''RK45'' 0 None =
     Inl IndexError"
proof -
  have u5: "[0..<5] = [0, 1, 2, 3, 4]" and u2: "[0..<2] = [0, 1]"
    by (simp_all add: upt_rec)
  have n: "n_particles two_free_particles = 2"
    by (simp add: two_free_particles_def)
  have "spatial_trajectories stalled_solver two_free_particles [1, 2] [0, 0] (0, 1) 5 ''RK45''
          0 None = Inl IndexError"
    by (simp add: spatial_trajectories_def stalled_multi_integrate n u5 u2 getitem_def)
  then show ?thesis
    by (simp add: CurveDynamics_integrate_def stalled_solver_def linspace_0_1_5 y_getitem_def
        getitem_def stalled_multi_integrate)
qed

section \<open>Synchrony of identical Kuramoto oscillators\<close>

lemma kuramoto_inner_sync:
  assumes "i < n"
  shows "kuramoto_inner coupling (replicate n p) i fs = fs"
proof -
  have "foldl (\<lambda>fs j. if i \<noteq> j
                       then fs[i := fs ! i + (coupling / real (length (replicate n p))) *
                                       sin (replicate n p ! j - replicate n p ! i)]
                       else fs) fs js = fs" if "\<forall>j \<in> set js. j < n" for js
    using that assms by (induction js arbitrary: fs) simp_all
  from this [of "[0..<n]"] show ?thesis
    by (simp add: kuramoto_inner_def)
qed

lemma kuramoto_outer_sync:
  assumes "\<forall>i \<in> set idx. i < n"
  shows "foldl (\<lambda>fs i. kuramoto_inner coupling (replicate n p) i fs) fs idx = fs"
  using assms by (induction idx arbitrary: fs) (simp_all add: kuramoto_inner_sync)

lemma kuramoto_sync:
  assumes "nf = None \<and> w = 0 \<or> nf = Some (replicate n w)"
  shows "kuramoto_interaction coupling nf (replicate n p) velocities = Inr (replicate n w)"
proof -
  have z: "map2 (+) (replicate n 0) (replicate n w) = replicate n w"
    by (simp add: map2_add_zeros)
  show ?thesis
    using assms
    by (auto simp: kuramoto_interaction_def Let_def broadcast_same z kuramoto_outer_sync)
qed

lemma order_parameter_sync:
  assumes "0 < n"
  shows "order_parameter (replicate n p) = 1"
proof -
  have "sum_list (map (\<lambda>p. exp (\<i> * complex_of_real p)) (replicate n p)) =
        of_nat n * exp (\<i> * complex_of_real p)"
    by (simp add: sum_list_replicate)
  then have "order_parameter (replicate n p) = cmod (exp (\<i> * complex_of_real p))"
    using assms by (simp add: order_parameter_def)
  then show ?thesis
    by simp
qed


lemma synchronized_iff: "synchronized n y \<longleftrightarrow> (\<exists>p v. y = replicate n p @ replicate n v)"
proof
  assume "synchronized n y"
  then have "y = replicate n (hd y) @ replicate n (y ! n)"
    by (simp add: synchronized_def)
  then show "\<exists>p v. y = replicate n p @ replicate n v"
    by blast
next
  assume "\<exists>p v. y = replicate n p @ replicate n v"
  then obtain p v where y: "y = replicate n p @ replicate n v"
    by blast
  show "synchronized n y"
  proof (cases n)
    case 0
    with y show ?thesis by (simp add: synchronized_def)
  next
    case (Suc k)
    with y show ?thesis by (simp add: synchronized_def nth_append)
  qed
qed

lemma synchronizedI: "synchronized n (replicate n p @ replicate n v)"
  by (auto simp: synchronized_iff)

lemma axpy_sync:
  "axpy a (replicate n p1 @ replicate n v1) (replicate n p2 @ replicate n v2) =
   replicate n (p2 + a * p1) @ replicate n (v2 + a * v1)"
  by (simp add: axpy_def zip_replicate map_replicate_const)

lemma axpy_synchronized:
  assumes "synchronized n x" and "synchronized n y"
  shows "synchronized n (axpy a x y)"
  using assms by (auto simp: synchronized_iff axpy_sync)

lemma lincomb_synchronized:
  assumes "\<forall>k \<in> set ks. synchronized n k" and "synchronized n y"
  shows "synchronized n (lincomb ws ks y)"
  using assms
  by (induction ws ks y rule: lincomb.induct) (simp_all add: axpy_synchronized)

lemma rk_stages_synchronized:
  assumes f: "\<And>s x. synchronized n x \<Longrightarrow> \<exists>d. f s x = Inr d \<and> synchronized n d"
      and "\<forall>k \<in> set ks. synchronized n k" and "synchronized n y"
  shows "\<exists>ks'. rk_stages f t y h tableau ks = Inr ks' \<and> (\<forall>k \<in> set ks'. synchronized n k)"
  using assms(2)
proof (induction tableau arbitrary: ks)
  case Nil
  then show ?case by simp
next
  case (Cons ca tableau)
  have "synchronized n (lincomb (map (\<lambda>a. h * a) (snd ca)) ks y)"
    using Cons.prems assms(3) by (rule lincomb_synchronized)
  then obtain d where d: "f (t + fst ca * h) (lincomb (map (\<lambda>a. h * a) (snd ca)) ks y) = Inr d"
      and sd: "synchronized n d"
    using f by blast
  have "\<forall>k \<in> set (ks @ [d]). synchronized n k"
    using Cons.prems sd by simp
  then show ?case
    using Cons.IH [of "ks @ [d]"] d by simp
qed

lemma rk_loop_synchronized:
  assumes f: "\<And>s x. synchronized n x \<Longrightarrow> \<exists>d. f s x = Inr d \<and> synchronized n d"
      and "synchronized n y" and "\<forall>s \<in> set out. synchronized n (snd s)"
  shows "\<exists>out' status. rk_loop budget m control f t_end t y h t_eval out = Inr (out', status) \<and>
           (\<forall>s \<in> set out'. synchronized n (snd s))"
  using assms(2,3)
proof (induction budget arbitrary: t y h t_eval out)
  case 0
  then show ?case by simp
next
  case (Suc budget)
  show ?case
  proof (cases "t_end \<le> t")
    case True
    then show ?thesis using Suc.prems by simp
  next
    case False
    let ?h1 = "min h (t_end - t)"
    have "\<exists>ks. rk_stages f t y ?h1 (rk_tableau m) [] = Inr ks \<and>
            (\<forall>k \<in> set ks. synchronized n k)"
    proof (rule rk_stages_synchronized)
      show "\<exists>d. f s x = Inr d \<and> synchronized n d" if "synchronized n x" for s x
        using that by (rule f)
      show "\<forall>k \<in> set []. synchronized n k"
        by simp
      show "synchronized n y"
        by (rule Suc.prems(1))
    qed
    then obtain ks where ks: "rk_stages f t y ?h1 (rk_tableau m) [] = Inr ks"
        and sks: "\<forall>k \<in> set ks. synchronized n k"
      by blast
    show ?thesis
    proof (cases "control t y ?h1 ks")
      case GiveUp
      then show ?thesis
        using False ks Suc.prems by (simp add: Let_def)
    next
      case (Retry h2)
      then show ?thesis
        using False ks Suc.IH [OF Suc.prems] by (simp add: Let_def)
    next
      case (Accept h2)
      let ?y = "lincomb (map (\<lambda>b. ?h1 * b) (rk_weights m)) ks y"
      let ?samples = "map (\<lambda>s. (s, lincomb (map (\<lambda>w. ?h1 * w) (rk_dense m ((s - t) / ?h1))) ks y))
                        (takeWhile (\<lambda>s. s \<le> t + ?h1) t_eval)"
      have sy: "synchronized n ?y"
        using sks Suc.prems(1) by (rule lincomb_synchronized)
      have "\<forall>s \<in> set ?samples. synchronized n (snd s)"
        using sks Suc.prems(1) by (auto intro: lincomb_synchronized)
      then have so: "\<forall>s \<in> set (out @ ?samples). synchronized n (snd s)"
        using Suc.prems(2) by auto
      show ?thesis
        using False ks Accept Suc.IH [OF sy so] by (simp add: Let_def)
    qed
  qed
qed


lemma kuramoto_rhs_value:
  assumes n: "n_particles self = n"
      and inter: "interaction_function self = Some (kuramoto_interaction coupling nf)"
      and nf: "nf = None \<and> w = 0 \<or> nf = Some (replicate n w)"
  shows "equations_of_motion self s (replicate n p @ replicate n v) damping external_force =
         Inr (replicate n v @
              replicate n (w + external_force_of external_force s p v - damping * v))"
proof -
  define x where "x = replicate n p @ replicate n v"
  have xv: "x = replicate n p @ replicate n v"
    by (rule x_def)
  let ?a = "w + external_force_of external_force s p v - damping * v"
  have len: "length x = 2 * n_particles self"
    by (simp add: xv n)
  have F: "interaction_forces_of self (take (n_particles self) x) (drop (n_particles self) x) =
           Inr (replicate n w)"
    using kuramoto_sync [OF nf] by (simp add: interaction_forces_of_def inter xv n)
  have lenF: "length (replicate n w) = n_particles self"
    by (simp add: n)
  have "map (\<lambda>i. replicate n w ! i + external_force_of external_force s (x ! i) (x ! (n + i))
                 - damping * x ! (n + i)) [0..<n] = replicate n ?a"
    by (rule nth_equalityI) (simp_all add: xv nth_append)
  then have "equations_of_motion self s x damping external_force =
             Inr (replicate n v @ replicate n ?a)"
    using equations_of_motion_value [OF len F lenF, of s damping external_force]
    by (simp add: n xv)
  then show ?thesis
    by (simp add: xv)
qed

lemma kuramoto_rhs_synchronized:
  assumes "n_particles self = n"
      and "interaction_function self = Some (kuramoto_interaction coupling nf)"
      and "nf = None \<and> w = 0 \<or> nf = Some (replicate n w)"
      and "synchronized n x"
  shows "\<exists>d. equations_of_motion self s x damping external_force = Inr d \<and> synchronized n d"
  using assms(4) kuramoto_rhs_value [OF assms(1-3)]
  by (auto simp: synchronized_iff)

lemma synchronized_rows:
  assumes "0 < n" and "out \<noteq> []" and "\<forall>s \<in> set out. synchronized n (snd s)"
  shows "length (transpose (take n (map (\<lambda>i. map (\<lambda>s. snd s ! i) out) [0..<n + n]))) = length out"
    and "\<forall>row \<in> set (transpose (take n (map (\<lambda>i. map (\<lambda>s. snd s ! i) out) [0..<n + n]))).
           \<exists>p. row = replicate n p"
proof -
  let ?rows = "map (\<lambda>i. map (\<lambda>s. snd s ! i) out) [0..<n]"
  have tk: "take n (map (\<lambda>i. map (\<lambda>s. snd s ! i) out) [0..<n + n]) = ?rows"
    by (simp add: take_map)
  have tr: "transpose ?rows = map (\<lambda>j. map (\<lambda>i. ?rows ! i ! j) [0..<length ?rows]) [0..<length out]"
    using assms(1) by (intro transpose_rectangle) simp_all
  show "length (transpose (take n (map (\<lambda>i. map (\<lambda>s. snd s ! i) out) [0..<n + n]))) = length out"
    by (simp only: tk tr) simp
  show "\<forall>row \<in> set (transpose (take n (map (\<lambda>i. map (\<lambda>s. snd s ! i) out) [0..<n + n]))).
           \<exists>p. row = replicate n p"
  proof
    fix row
    assume "row \<in> set (transpose (take n (map (\<lambda>i. map (\<lambda>s. snd s ! i) out) [0..<n + n])))"
    then obtain j where j: "j < length out"
        and row: "row = map (\<lambda>i. ?rows ! i ! j) [0..<length ?rows]"
      by (simp only: tk tr) auto
    from j assms(3) have "synchronized n (snd (out ! j))"
      by simp
    then obtain p v where pv: "snd (out ! j) = replicate n p @ replicate n v"
      by (auto simp: synchronized_iff)
    have "row = replicate n p"
      unfolding row using j by (intro nth_equalityI) (simp_all add: pv nth_append)
    then show "\<exists>p. row = replicate n p" ..
  qed
qed

text \<open>
  Claim C7.  For \<open>N \<ge> 1\<close> particles with the Kuramoto interaction and identical natural
  frequencies (or none), all started at the same position with the same velocity,
  and for every solver of the Runge--Kutta family: the integration raises nothing
  but what an empty result or a negative sample count raises, and in the returned
  arrays every row of positions (one per output time) has all its entries equal and
  its order parameter \<open>|mean(exp(i * position))|\<close> is 1.
\<close>

theorem kuramoto_synchrony_preserved:
  assumes "n_particles self = n" and "0 < n"
      and "interaction_function self = Some (kuramoto_interaction coupling nf)"
      and "nf = None \<or> nf = Some (replicate n w)"
  shows "case MultiParticleSystem_integrate (rk_solve m control budget h0) self
                (replicate n p0) (replicate n v0) t_span n_points method_name damping external_force of
           Inl e \<Rightarrow> n_points < 0 \<and> e = ValueError \<or> e = AttributeError
         | Inr (ts, positions, velocities) \<Rightarrow>
             length positions = length ts \<and>
             (\<forall>row \<in> set positions. (\<exists>p. row = replicate n p) \<and> order_parameter row = 1)"
proof (cases "n_points < 0")
  case True
  then show ?thesis
    by (simp add: MultiParticleSystem_integrate_def linspace_def)
next
  case False
  then obtain t_eval where te: "linspace (fst t_span) (snd t_span) n_points = Inr t_eval"
    by (simp add: linspace_def Let_def)
  let ?f = "\<lambda>t y. equations_of_motion self t y damping external_force"
  let ?y0 = "replicate n p0 @ replicate n v0"
  from assms(4) obtain w' where nf: "nf = None \<and> w' = 0 \<or> nf = Some (replicate n w')"
    by auto
  have f: "\<exists>d. ?f s x = Inr d \<and> synchronized n d" if "synchronized n x" for s x
    using assms(1,3) nf that by (rule kuramoto_rhs_synchronized)
  have "\<exists>out status. rk_loop budget m control ?f (snd t_span) (fst t_span) ?y0 h0 t_eval [] =
            Inr (out, status) \<and> (\<forall>s \<in> set out. synchronized n (snd s))"
  proof (rule rk_loop_synchronized)
    show "\<exists>d. ?f s x = Inr d \<and> synchronized n d" if "synchronized n x" for s x
      using that by (rule f)
    show "synchronized n ?y0"
      by (rule synchronizedI)
    show "\<forall>s \<in> set []. synchronized n (snd s)"
      by simp
  qed
  then obtain out status
    where loop: "rk_loop budget m control ?f (snd t_span) (fst t_span) ?y0 h0 t_eval [] =
                   Inr (out, status)"
      and so: "\<forall>s \<in> set out. synchronized n (snd s)"
    by blast
  show ?thesis
  proof (cases "out = []")
    case True
    then show ?thesis
      using te loop by (simp add: MultiParticleSystem_integrate_def rk_solve_def)
  next
    case False
    note rows = synchronized_rows [OF assms(2) False so]
    have "order_parameter row = 1" if "\<exists>p. row = replicate n p" for row
      using that assms(2) by (auto simp: order_parameter_sync)
    then show ?thesis
      using te loop False rows
      by (auto simp: MultiParticleSystem_integrate_def rk_solve_def assms(1))
  qed
qed


lemma linspace_0_1_3: "linspace 0 1 3 = Inr [0, 1 / 2, 1]"
proof -
  have "[0..<3] = [0, 1, 2]"
    by (simp add: upt_rec)
  then show ?thesis
    by (simp add: linspace_def Let_def)
qed

lemma kuramoto_pair_rhs:
  "equations_of_motion kuramoto_pair s [p, p, v, v] 0 None = Inr [v, v, 1 / 2, 1 / 2]"
proof -
  have r: "replicate 2 x = [x, x]" for x :: real
    by (simp add: numeral_2_eq_2)
  have "equations_of_motion kuramoto_pair s (replicate 2 p @ replicate 2 v) 0 None =
        Inr (replicate 2 v @ replicate 2 (1 / 2 + external_force_of None s p v - 0 * v))"
    by (rule kuramoto_rhs_value [where coupling = 1 and nf = "Some [1 / 2, 1 / 2]"])
       (simp_all add: kuramoto_pair_def r)
  then show ?thesis
    by (simp add: r external_force_of_def)
qed

lemma euler_run:
  "rk_loop 5 euler always_accept (\<lambda>t y. equations_of_motion kuramoto_pair t y 0 None) 1 0
     [0, 0, 1, 1] (1 / 2) [0, 1 / 2, 1] [] =
   Inr ([(0, [0, 0, 1, 1]), (1 / 2, [1 / 2, 1 / 2, 5 / 4, 5 / 4]), (1, [9 / 8, 9 / 8, 3 / 2, 3 / 2])], 0)"
  by (simp add: eval_nat_numeral euler_def always_accept_def kuramoto_pair_rhs axpy_def Let_def)


text \<open>
  The pair of oscillators started at position 0 with velocity 1, over the span \<open>[0, 1]\<close>
  with three samples and step size \<open>1/2\<close>.
\<close>

theorem kuramoto_synchrony_preserved_witness:
  "n_particles kuramoto_pair = 2 \<and> (0::nat) < 2 \<and>
   interaction_function kuramoto_pair = Some (kuramoto_interaction 1 (Some [1 / 2, 1 / 2])) \<and>
   Some [1 / 2, 1 / 2] = Some (replicate 2 (1 / 2 :: real)) \<and>
   MultiParticleSystem_integrate (rk_solve euler always_accept 5 (1 / 2)) kuramoto_pair
       (replicate 2 0) (replicate 2 1) (0, 1) 3 ''RK45'' 0 None =
     Inr ([0, 1 / 2, 1], [[0, 0], [1 / 2, 1 / 2], [9 / 8, 9 / 8]],
          [[1, 1], [5 / 4, 5 / 4], [3 / 2, 3 / 2]]) \<and>
   order_parameter [0, 0] = 1 \<and> order_parameter [1 / 2, 1 / 2] = 1 \<and>
   order_parameter [9 / 8, 9 / 8] = 1"
proof -
  have r: "replicate 2 x = [x, x]" for x :: real
    by (simp add: numeral_2_eq_2)
  have n: "n_particles kuramoto_pair = 2"
    and i: "interaction_function kuramoto_pair = Some (kuramoto_interaction 1 (Some [1 / 2, 1 / 2]))"
    by (simp_all add: kuramoto_pair_def)
  have f: "Some [1 / 2, 1 / 2] = None \<or> Some [1 / 2, 1 / 2] = Some (replicate 2 (1 / 2 :: real))"
    by (simp add: r)
  have u: "[0..<4] = [0, 1, 2, 3]"
    by (simp add: upt_rec)
  have run: "MultiParticleSystem_integrate (rk_solve euler always_accept 5 (1 / 2)) kuramoto_pair
       (replicate 2 0) (replicate 2 1) (0, 1) 3 ''RK45'' 0 None =
     Inr ([0, 1 / 2, 1], [[0, 0], [1 / 2, 1 / 2], [9 / 8, 9 / 8]],
          [[1, 1], [5 / 4, 5 / 4], [3 / 2, 3 / 2]])"
    by (simp add: MultiParticleSystem_integrate_def rk_solve_def linspace_0_1_3 r euler_run n u)
  show ?thesis
    using kuramoto_synchrony_preserved [where self = kuramoto_pair and n = 2 and coupling = 1
        and nf = "Some [1 / 2, 1 / 2]" and w = "1 / 2" and m = euler and control = always_accept
        and budget = 5 and ?h0.0 = "1 / 2" and ?p0.0 = 0 and ?v0.0 = 1 and t_span = "(0, 1)"
        and n_points = 3 and method_name = "''RK45''" and damping = 0 and external_force = None,
        OF n _ i f]
      n i run
    by (simp add: r)
qed

end
